theory Spec2Isabelle
  imports Main "HOL-Library.Sublist"
begin

section \<open>Text\<close>

text \<open>
  Python \<open>str\<close> values are modelled as Isabelle strings: lists of 8-bit characters, read
  as the code points 0 to 255. \<open>len\<close> is \<^const>\<open>length\<close>, \<open>+\<close> is \<open>@\<close>, and the
  test \<open>a in b\<close> on two strings is \<^const>\<open>sublist\<close> \<open>a b\<close> (\<open>b\<close> has \<open>a\<close> as a
  contiguous part).
\<close>

definition upper_chars :: string where
  "upper_chars = ''ABCDEFGHIJKLMNOPQRSTUVWXYZ'' @
     [CHR 0xC0, CHR 0xC1, CHR 0xC2, CHR 0xC3, CHR 0xC4, CHR 0xC5, CHR 0xC6, CHR 0xC7,
      CHR 0xC8, CHR 0xC9, CHR 0xCA, CHR 0xCB, CHR 0xCC, CHR 0xCD, CHR 0xCE, CHR 0xCF,
      CHR 0xD0, CHR 0xD1, CHR 0xD2, CHR 0xD3, CHR 0xD4, CHR 0xD5, CHR 0xD6,
      CHR 0xD8, CHR 0xD9, CHR 0xDA, CHR 0xDB, CHR 0xDC, CHR 0xDD, CHR 0xDE]"

definition lower_chars :: string where
  "lower_chars = ''abcdefghijklmnopqrstuvwxyz'' @
     [CHR 0xE0, CHR 0xE1, CHR 0xE2, CHR 0xE3, CHR 0xE4, CHR 0xE5, CHR 0xE6, CHR 0xE7,
      CHR 0xE8, CHR 0xE9, CHR 0xEA, CHR 0xEB, CHR 0xEC, CHR 0xED, CHR 0xEE, CHR 0xEF,
      CHR 0xF0, CHR 0xF1, CHR 0xF2, CHR 0xF3, CHR 0xF4, CHR 0xF5, CHR 0xF6,
      CHR 0xF8, CHR 0xF9, CHR 0xFA, CHR 0xFB, CHR 0xFC, CHR 0xFD, CHR 0xFE]"

definition lower_char :: "char \<Rightarrow> char" where
  "lower_char c = (case map_of (zip upper_chars lower_chars) c of Some l \<Rightarrow> l | None \<Rightarrow> c)"

text \<open>\<open>str.lower()\<close>: every cased character of the range goes to its lowercase form.\<close>

definition lower :: "string \<Rightarrow> string" where
  "lower s = map lower_char s"

text \<open>
  The characters for which \<open>str.isspace()\<close> holds, which are also the ones the regular
  expression class \<open>\s\<close> matches on a \<open>str\<close>: tab, line feed, vertical tab, form feed,
  carriage return, the separators 0x1C to 0x1F, space, 0x85 and 0xA0.
\<close>

definition is_space :: "char \<Rightarrow> bool" where
  "is_space c = (c \<in> set [CHR 0x09, CHR 0x0A, CHR 0x0B, CHR 0x0C, CHR 0x0D,
                          CHR 0x1C, CHR 0x1D, CHR 0x1E, CHR 0x1F, CHR 0x20, CHR 0x85, CHR 0xA0])"

text \<open>\<open>str.strip()\<close> without argument: whitespace is removed from both ends.\<close>

definition strip :: "string \<Rightarrow> string" where
  "strip s = rev (dropWhile is_space (rev (dropWhile is_space s)))"

text \<open>
  Python slices with one bound. A negative bound counts from the end, and a bound outside
  the string is clamped: \<open>s[:k]\<close> is \<open>slice_to s k\<close>, \<open>s[j:]\<close> is \<open>slice_from s j\<close>.
  Note \<open>s[-0:]\<close> is \<open>s[0:]\<close>, the whole string.
\<close>

definition slice_to :: "'a list \<Rightarrow> int \<Rightarrow> 'a list" where
  "slice_to s k = (if k < 0 then take (nat (int (length s) + k)) s else take (nat k) s)"

definition slice_from :: "'a list \<Rightarrow> int \<Rightarrow> 'a list" where
  "slice_from s j = (if j < 0 then drop (nat (int (length s) + j)) s else drop (nat j) s)"

definition sq :: string where
  "sq = [CHR 0x27]"

definition newline :: string where
  "newline = [CHR 0x0A]"

section \<open>Values, exceptions and effects\<close>

text \<open>
  The values that flow through the pipeline untyped (\<open>Any\<close>, \<open>Dict[str, Any]\<close>): what
  \<open>json.loads\<close> produces, what the tools return, and the envelope the pipeline answers
  with. A dict keeps its insertion order, so it is an association list. A float is kept
  as its printed form; no property here computes with one.
\<close>

datatype pyval =
    PNone
  | PBool bool
  | PInt int
  | PFloat string
  | PStr string
  | PBytes string
  | PList "pyval list"
  | PDict "(string \<times> pyval) list"

text \<open>Truthiness, as \<open>if x\<close> and \<open>not x\<close> test it.\<close>

fun truthy :: "pyval \<Rightarrow> bool" where
  "truthy PNone = False"
| "truthy (PBool b) = b"
| "truthy (PInt i) = (i \<noteq> 0)"
| "truthy (PFloat f) = (f \<notin> {''0.0'', ''-0.0''})"
| "truthy (PStr s) = (s \<noteq> [])"
| "truthy (PBytes s) = (s \<noteq> [])"
| "truthy (PList xs) = (xs \<noteq> [])"
| "truthy (PDict kvs) = (kvs \<noteq> [])"

fun type_name :: "pyval \<Rightarrow> string" where
  "type_name PNone = ''NoneType''"
| "type_name (PBool b) = ''bool''"
| "type_name (PInt i) = ''int''"
| "type_name (PFloat f) = ''float''"
| "type_name (PStr s) = ''str''"
| "type_name (PBytes s) = ''bytes''"
| "type_name (PList xs) = ''list''"
| "type_name (PDict kvs) = ''dict''"

text \<open>
  An exception is its class name and the text \<open>str(e)\<close> gives. \<open>except Exception\<close>
  catches every exception but those whose class stands beside \<open>Exception\<close> under
  \<open>BaseException\<close>: of the builtins \<open>KeyboardInterrupt\<close>, \<open>SystemExit\<close>,
  \<open>GeneratorExit\<close> and \<open>BaseExceptionGroup\<close> (and \<open>BaseException\<close> itself), and
  \<open>asyncio.CancelledError\<close>.
\<close>

datatype exn = PyExc (exc_class: string) (exc_str: string)

definition outside_Exception :: "string list" where
  "outside_Exception =
     [''BaseException'', ''BaseExceptionGroup'', ''GeneratorExit'', ''KeyboardInterrupt'',
      ''SystemExit'', ''CancelledError'']"

definition is_Exception :: "exn \<Rightarrow> bool" where
  "is_Exception e = (exc_class e \<notin> set outside_Exception)"

text \<open>
  Effects. The collaborators (the model provider, the code executor, the tools, the
  template files) act on a world \<open>'w\<close> that the model threads through every call. Next
  to the world the state keeps a trace of what was done, most recent event first, so that
  the number of model calls, the sleeps and the correction requests can be read off.
\<close>

datatype event =
    ModelCall string "exn option"
  | Sleep int
  | CorrectionRequest
  | PrepareCode
  | ExecuteCode

record 'w state =
  world :: 'w
  trace :: "event list"

definition log_event :: "event \<Rightarrow> 'w state \<Rightarrow> 'w state" where
  "log_event ev st = st\<lparr>trace := ev # trace st\<rparr>"

definition model_calls :: "event list \<Rightarrow> nat" where
  "model_calls evs = length (filter (\<lambda>ev. case ev of ModelCall p r \<Rightarrow> True | _ \<Rightarrow> False) evs)"

text \<open>The arguments of \<open>time.sleep\<close>, in the order the sleeps happened.\<close>

definition sleeps :: "event list \<Rightarrow> int list" where
  "sleeps evs = rev (concat (map (\<lambda>ev. case ev of Sleep d \<Rightarrow> [d] | _ \<Rightarrow> []) evs))"

definition corrections :: "event list \<Rightarrow> nat" where
  "corrections evs = length (filter (\<lambda>ev. ev = CorrectionRequest) evs)"

definition cycles :: "event list \<Rightarrow> nat" where
  "cycles evs = length (filter (\<lambda>ev. ev = PrepareCode) evs)"

definition executions :: "event list \<Rightarrow> nat" where
  "executions evs = length (filter (\<lambda>ev. ev = ExecuteCode) evs)"

text \<open>Two states whose traces count the same corrections, passes and runs.\<close>

definition same_counts :: "'w state \<Rightarrow> 'w state \<Rightarrow> bool" where
  "same_counts st st' \<longleftrightarrow>
     corrections (trace st') = corrections (trace st) \<and>
     cycles (trace st') = cycles (trace st) \<and>
     executions (trace st') = executions (trace st)"

section \<open>The collaborators\<close>

text \<open>
  Modelled from the spec: what the code executor answers (\<open>code_executor.py\<close> is not
  among the sources). The spec gives the two shapes \<open>check_syntax(code) -> {valid, error?}\<close>
  and \<open>run(code) -> {success, output, error?}\<close>. Both errors are optional: \<open>None\<close> is a
  dict without the key \<open>error\<close>. The results the controller builds itself,
  \<open>{"success": False, "error": ..., "output": ""}\<close>, are \<open>failure\<close>. (\<open>output\<close> is a
  keyword of Isabelle, so the field is \<open>output_text\<close>.)
\<close>

record syntax_check =
  valid :: bool
  syntax_error :: "string option"

record exec_result =
  success :: bool
  output_text :: string
  error :: "string option"

definition failure :: "string \<Rightarrow> exec_result" where
  "failure msg = \<lparr>success = False, output_text = [], error = Some msg\<rparr>"

text \<open>
  What \<open>json.loads\<close> does with a text, as the two handlers around it tell its
  exceptions apart: \<open>json.JSONDecodeError\<close> with its message (the text is not JSON);
  another \<open>ValueError\<close> with its message (an integer literal of more than 4300 digits);
  an exception that is no \<open>ValueError\<close> (\<open>RecursionError\<close> on arrays nested about a
  thousand deep).
\<close>

datatype json_outcome =
    Loaded pyval
  | JSONDecodeError string
  | OtherValueError string
  | OtherError exn

text \<open>
  What the provider's response object offers to \<open>call_llm\<close>: its \<open>text\<close> (\<open>None\<close> when
  the attribute is missing or \<open>None\<close>), and for each candidate the text of its first
  content part (\<open>None\<close> when reading it raises or gives \<open>None\<close>).
\<close>

record model_response =
  resp_text :: "string option"
  candidates :: "string option list"

text \<open>
  The configuration and the collaborators of one controller. The provider's library,
  the executor, the network and file tools, \<open>json\<close> and the template files are
  parameters: each operation reads and changes the world and either returns or raises.
  \<^item> \<open>api_key\<close>, \<open>max_retries\<close> and \<open>retry_delay\<close> are read from the environment
    by \<open>LLMHandler.__init__\<close> (defaults: none, 3 and 1); \<open>max_correction_attempts\<close> is
    the bound the \<open>Orchestrator\<close> constructor sets, to 3;
  \<^item> \<open>generate_content\<close> is the body of the \<open>try\<close> in \<open>call_llm\<close> up to the response:
    building the \<open>GenerativeModel\<close> (with the system instruction, if one is given) and
    \<open>model.generate_content(prompt)\<close>;
  \<^item> \<open>elapse\<close> is what \<open>time.sleep\<close> does to the world;
  \<^item> \<open>read_template\<close> opens and reads \<open>prompts/<name>.txt\<close>; \<open>None\<close> is
    \<open>FileNotFoundError\<close>; \<open>default_prompt\<close> is the table of \<open>_get_default_prompt\<close>;
  \<^item> \<open>safe_substitute\<close> is \<open>string.Template(t).safe_substitute(**kw)\<close>;
  \<^item> \<open>json_loads\<close> is \<open>json.loads\<close> on a \<open>str\<close>;
    \<open>json_dumps\<close> is \<open>json.dumps(x, default=str)\<close> and \<open>json_dumps_indent\<close> is
    \<open>json.dumps(x, indent=2)\<close>;
  \<^item> \<open>scrape_url\<close>, \<open>inspect_data\<close> and \<open>process_file_content\<close> are the three tools
    behind the dispatcher.
\<close>

record 'w env =
  api_key :: "string option"
  max_retries :: int
  retry_delay :: int
  max_correction_attempts :: nat
  generate_content :: "string option \<Rightarrow> string \<Rightarrow> 'w \<Rightarrow> (exn + model_response) \<times> 'w"
  elapse :: "int \<Rightarrow> 'w \<Rightarrow> 'w"
  read_template :: "string \<Rightarrow> 'w \<Rightarrow> exn + string option"
  default_prompt :: "string \<Rightarrow> string"
  safe_substitute :: "string \<Rightarrow> (string \<times> string) list \<Rightarrow> string"
  json_loads :: "string \<Rightarrow> json_outcome"
  json_dumps :: "pyval \<Rightarrow> exn + string"
  json_dumps_indent :: "pyval \<Rightarrow> exn + string"
  prepare_code :: "string \<Rightarrow> 'w \<Rightarrow> (exn + string) \<times> 'w"
  validate_code_syntax :: "string \<Rightarrow> 'w \<Rightarrow> (exn + syntax_check) \<times> 'w"
  execute_code :: "string \<Rightarrow> 'w \<Rightarrow> (exn + exec_result) \<times> 'w"
  scrape_url :: "pyval \<Rightarrow> 'w \<Rightarrow> (exn + pyval) \<times> 'w"
  inspect_data :: "pyval \<Rightarrow> pyval \<Rightarrow> 'w \<Rightarrow> (exn + pyval) \<times> 'w"
  process_file_content :: "pyval \<Rightarrow> pyval \<Rightarrow> 'w \<Rightarrow> (exn + pyval) \<times> 'w"

text \<open>Running one collaborator operation on the world of a state.\<close>

definition run :: "('w \<Rightarrow> 'a \<times> 'w) \<Rightarrow> 'w state \<Rightarrow> 'a \<times> 'w state" where
  "run f st = (case f (world st) of (r, w) \<Rightarrow> (r, st\<lparr>world := w\<rparr>))"

section \<open>Model gateway (llm\_handler.py)\<close>

definition estimate_tokens :: "string \<Rightarrow> int" where
  "estimate_tokens txt = int (length txt) div 4"

definition truncation_marker :: string where
  "truncation_marker = newline @ newline @ ''... [TRUNCATED FOR LENGTH] ...'' @ newline @ newline"

definition truncate_prompt :: "string \<Rightarrow> int \<Rightarrow> string" where
  "truncate_prompt prompt max_context_tokens =
     (let estimated_tokens = estimate_tokens prompt in
      if estimated_tokens \<le> max_context_tokens then prompt
      else
        let target_length = max_context_tokens * 4 in
        if int (length prompt) \<le> target_length then prompt
        else
          let keep_start = target_length div 2;
              keep_end = target_length div 2
          in slice_to prompt keep_start @ truncation_marker @ slice_from prompt (- keep_end))"

text \<open>The text of a response: \<open>.text\<close> first, else the first candidate, else empty.\<close>

definition extract_text :: "model_response \<Rightarrow> string" where
  "extract_text response =
     (let result_text = resp_text response;
          result_text =
            (if (result_text = None \<or> result_text = Some []) \<and> candidates response \<noteq> []
             then (case hd (candidates response) of None \<Rightarrow> Some [] | Some t \<Rightarrow> Some t)
             else result_text)
      in strip (case result_text of None \<Rightarrow> [] | Some t \<Rightarrow> t))"

text \<open>
  \<open>time.sleep\<close> on an \<open>int\<close>. The length is first converted to nanoseconds in 64 bits,
  which raises \<open>OverflowError\<close> beyond 9223372036 seconds either way (with the message
  of CPython 3.11 and 3.12); a negative length that converts is refused with
  \<open>ValueError\<close>.
\<close>

definition sleep_limit :: int where
  "sleep_limit = 9223372036"

definition sleep :: "'w env \<Rightarrow> int \<Rightarrow> 'w state \<Rightarrow> (exn + unit) \<times> 'w state" where
  "sleep E secs st =
     (if secs < - sleep_limit \<or> sleep_limit < secs
      then (Inl (PyExc ''OverflowError'' ''timestamp too large to convert to C _PyTime_t''), st)
      else if secs < 0
      then (Inl (PyExc ''ValueError'' ''sleep length must be non-negative''), st)
      else (Inr (), log_event (Sleep secs) (st\<lparr>world := elapse E secs (world st)\<rparr>)))"

text \<open>
  The retry loop \<open>for attempt in range(self.max_retries)\<close>, over the list of the attempt
  numbers still to come. The statement after the loop is the first equation. The handler
  is \<open>except Exception\<close>: an exception outside \<open>Exception\<close> leaves the call at once, and
  so does one that \<open>time.sleep\<close> raises inside the handler.
\<close>

fun call_llm_attempts ::
  "'w env \<Rightarrow> string option \<Rightarrow> string \<Rightarrow> nat list \<Rightarrow> 'w state \<Rightarrow> (exn + string) \<times> 'w state" where
  "call_llm_attempts E system_message prompt_to_send [] st =
     (Inl (PyExc ''Exception'' ''Max retries exceeded for LLM API call''), st)"
| "call_llm_attempts E system_message prompt_to_send (attempt # rest) st =
     (case generate_content E system_message prompt_to_send (world st) of
        (Inr response, w) \<Rightarrow>
          (Inr (extract_text response), log_event (ModelCall prompt_to_send None) (st\<lparr>world := w\<rparr>))
      | (Inl e, w) \<Rightarrow>
          (let st1 = log_event (ModelCall prompt_to_send (Some e)) (st\<lparr>world := w\<rparr>) in
           if \<not> is_Exception e then (Inl e, st1)
           else if int attempt < max_retries E - 1
           then (case sleep E (retry_delay E * 2 ^ attempt) st1 of
                   (Inl e', st2) \<Rightarrow> (Inl e', st2)
                 | (Inr u, st2) \<Rightarrow> call_llm_attempts E system_message prompt_to_send rest st2)
           else (Inl e, st1)))"

definition call_llm ::
  "'w env \<Rightarrow> string \<Rightarrow> string option \<Rightarrow> 'w state \<Rightarrow> (exn + string) \<times> 'w state" where
  "call_llm E prompt system_message st =
     (if api_key E = None \<or> api_key E = Some []
      then (Inl (PyExc ''ValueError'' ''Gemini API key not configured''), st)
      else
        let prompt_to_send = truncate_prompt prompt 3000;
            system_message = (if system_message = Some [] then None else system_message)
        in call_llm_attempts E system_message prompt_to_send [0..<nat (max_retries E)] st)"

section \<open>Tool dispatcher (tool\_executor.py)\<close>

definition available_tools :: "string list" where
  "available_tools = [''web_scraper'', ''data_inspector'', ''data_reader'']"

text \<open>\<open>str\<close> of a list of plain names, as the f-string of the error message prints it.\<close>

fun join :: "string \<Rightarrow> string list \<Rightarrow> string" where
  "join sep [] = []"
| "join sep [x] = x"
| "join sep (x # y # ys) = x @ sep @ join sep (y # ys)"

definition list_repr :: "string list \<Rightarrow> string" where
  "list_repr xs = ''['' @ join '', '' (map (\<lambda>x. sq @ x @ sq) xs) @ '']''"

definition get_param :: "(string \<rightharpoonup> pyval) \<Rightarrow> string \<Rightarrow> pyval \<Rightarrow> pyval" where
  "get_param parameters k dflt = (case parameters k of None \<Rightarrow> dflt | Some v \<Rightarrow> v)"

definition execute_web_scraper ::
  "'w env \<Rightarrow> (string \<rightharpoonup> pyval) \<Rightarrow> 'w state \<Rightarrow> (exn + pyval) \<times> 'w state" where
  "execute_web_scraper E parameters st =
     (let url = get_param parameters ''url'' PNone in
      if \<not> truthy url
      then (Inl (PyExc ''ValueError'' ''URL parameter is required for web scraper''), st)
      else run (scrape_url E url) st)"

definition execute_data_inspector ::
  "'w env \<Rightarrow> (string \<rightharpoonup> pyval) \<Rightarrow> 'w state \<Rightarrow> (exn + pyval) \<times> 'w state" where
  "execute_data_inspector E parameters st =
     (let data = get_param parameters ''data'' PNone;
          source_type = get_param parameters ''source_type'' (PStr ''unknown'')
      in if data = PNone
         then (Inl (PyExc ''ValueError'' ''Data parameter is required for data inspector''), st)
         else run (inspect_data E data source_type) st)"

definition execute_data_reader ::
  "'w env \<Rightarrow> (string \<rightharpoonup> pyval) \<Rightarrow> 'w state \<Rightarrow> (exn + pyval) \<times> 'w state" where
  "execute_data_reader E parameters st =
     (let filename = get_param parameters ''filename'' (PStr []);
          content = get_param parameters ''content'' PNone
      in if content = PNone
         then (Inl (PyExc ''ValueError'' ''Content parameter is required for data reader''), st)
         else run (process_file_content E filename content) st)"

text \<open>
  \<open>execute_tool\<close>. Its \<open>except Exception: ... raise\<close> logs and raises the same exception
  again, so an error of a branch is the error of the call. The last branch is the generic
  one for a registered module with an \<open>execute\<close> function; none of the three registered
  names reaches it.
\<close>

definition execute_tool ::
  "'w env \<Rightarrow> string \<Rightarrow> (string \<rightharpoonup> pyval) \<Rightarrow> 'w state \<Rightarrow> (exn + pyval) \<times> 'w state" where
  "execute_tool E tool_name parameters st =
     (if tool_name \<notin> set available_tools
      then (Inl (PyExc ''ValueError''
                  (''Tool '' @ sq @ tool_name @ sq @ '' not found. Available tools: ''
                   @ list_repr available_tools)), st)
      else if tool_name = ''web_scraper'' then execute_web_scraper E parameters st
      else if tool_name = ''data_inspector'' then execute_data_inspector E parameters st
      else if tool_name = ''data_reader'' then execute_data_reader E parameters st
      else (Inl (PyExc ''AttributeError''
                  (''Tool '' @ sq @ tool_name @ sq @ '' does not have an ''
                   @ sq @ ''execute'' @ sq @ '' method'')), st))"

section \<open>Pipeline controller (orchestrator.py)\<close>

text \<open>An uploaded file, as \<open>main.py\<close> hands it over: \<open>{'filename': ..., 'content': bytes}\<close>.\<close>

record file_info =
  filename :: string
  content :: string

subsection \<open>Stage 1: the data source\<close>

definition analyze_data_source :: "string \<Rightarrow> file_info list \<Rightarrow> string \<Rightarrow> string" where
  "analyze_data_source questions data_files data_url =
     (if data_url \<noteq> [] \<and> strip data_url \<noteq> [] then ''url''
      else if data_files \<noteq> [] then ''file''
      else if sublist ''http'' (lower questions) \<or> sublist ''www.'' (lower questions)
        then ''url_in_text''
      else ''text_only'')"

text \<open>
  The pattern \<open>https?://[^\s<>"{{}}|\\^`\[\]]+\<close>. The class after \<open>://\<close> excludes
  whitespace and the characters \<open>< > " { } | \ ^ ` [ ]\<close>, and \<open>+\<close> asks for at least one
  character of it. \<open>match_url\<close> is the match that starts at the head of the text, the
  longest one since \<open>+\<close> is greedy.
\<close>

definition url_stop_chars :: string where
  "url_stop_chars = [CHR ''<'', CHR ''>'', CHR 0x22, CHR ''{'', CHR ''}'', CHR ''|'',
                     CHR 0x5C, CHR ''^'', CHR 0x60, CHR ''['', CHR '']'']"

definition url_char :: "char \<Rightarrow> bool" where
  "url_char c = (\<not> is_space c \<and> c \<notin> set url_stop_chars)"

definition match_url :: "string \<Rightarrow> string option" where
  "match_url s =
     (if prefix ''https://'' s \<and> takeWhile url_char (drop 8 s) \<noteq> []
        then Some (''https://'' @ takeWhile url_char (drop 8 s))
      else if prefix ''http://'' s \<and> takeWhile url_char (drop 7 s) \<noteq> []
        then Some (''http://'' @ takeWhile url_char (drop 7 s))
      else None)"

text \<open>The first element of \<open>re.findall\<close>: the match at the leftmost position that has one.\<close>

fun find_url :: "string \<Rightarrow> string option" where
  "find_url [] = None"
| "find_url (c # cs) = (case match_url (c # cs) of Some u \<Rightarrow> Some u | None \<Rightarrow> find_url cs)"

definition extract_url :: "string \<Rightarrow> string" where
  "extract_url s = (case find_url s of Some u \<Rightarrow> u | None \<Rightarrow> [])"

text \<open>
  \<open>_extract_url_from_text\<close> on whatever it is given: \<open>re.findall\<close> raises \<open>TypeError\<close> on a
  value that is not text.
\<close>

definition extract_url_from_text :: "pyval \<Rightarrow> exn + string" where
  "extract_url_from_text txt =
     (case txt of
        PStr s \<Rightarrow> Inr (extract_url s)
      | PBytes b \<Rightarrow> Inl (PyExc ''TypeError'' ''cannot use a string pattern on a bytes-like object'')
      | _ \<Rightarrow> Inl (PyExc ''TypeError''
                 (''expected string or bytes-like object, got '' @ sq @ type_name txt @ sq)))"

subsection \<open>Stages 2 to 5: plan, data, metadata, code\<close>

definition load_prompt_template :: "'w env \<Rightarrow> string \<Rightarrow> 'w state \<Rightarrow> exn + string" where
  "load_prompt_template E template_name st =
     (case read_template E template_name (world st) of
        Inl e \<Rightarrow> Inl e
      | Inr None \<Rightarrow> Inr (default_prompt E template_name)
      | Inr (Some t) \<Rightarrow> Inr t)"

text \<open>
  \<open>_get_task_breakdown\<close>. Its handler is \<open>except json.JSONDecodeError\<close> alone: any
  other exception of \<open>json.loads\<close> leaves the stage.
\<close>

definition get_task_breakdown :: "'w env \<Rightarrow> string \<Rightarrow> 'w state \<Rightarrow> (exn + pyval) \<times> 'w state" where
  "get_task_breakdown E questions st =
     (case load_prompt_template E ''1_task_breakdown'' st of
        Inl e \<Rightarrow> (Inl e, st)
      | Inr prompt_template \<Rightarrow>
          (let prompt = safe_substitute E prompt_template [(''questions'', questions)] in
           case call_llm E prompt None st of
             (Inl e, st1) \<Rightarrow> (Inl e, st1)
           | (Inr response, st1) \<Rightarrow>
               (case json_loads E response of
                  Loaded task_plan \<Rightarrow> (Inr task_plan, st1)
                | JSONDecodeError msg \<Rightarrow>
                    (Inr (PDict [(''plan'', PStr response), (''steps'', PList [])]), st1)
                | OtherValueError msg \<Rightarrow> (Inl (PyExc ''ValueError'' msg), st1)
                | OtherError e \<Rightarrow> (Inl e, st1))))"

text \<open>\<open>x.get(k, d)\<close>: only a dict has the method.\<close>

definition dict_get :: "pyval \<Rightarrow> string \<Rightarrow> pyval \<Rightarrow> exn + pyval" where
  "dict_get x k d =
     (case x of
        PDict kvs \<Rightarrow> Inr (case map_of kvs k of Some v \<Rightarrow> v | None \<Rightarrow> d)
      | _ \<Rightarrow> Inl (PyExc ''AttributeError''
                 (sq @ type_name x @ sq @ '' object has no attribute '' @ sq @ ''get'' @ sq)))"

text \<open>The loop over the uploaded files: one \<open>data_reader\<close> call each, in order.\<close>

fun read_files :: "'w env \<Rightarrow> file_info list \<Rightarrow> 'w state \<Rightarrow> (exn + pyval list) \<times> 'w state" where
  "read_files E [] st = (Inr [], st)"
| "read_files E (f # fs) st =
     (case execute_tool E ''data_reader''
             [''filename'' \<mapsto> PStr (filename f), ''content'' \<mapsto> PBytes (content f)] st of
        (Inl e, st1) \<Rightarrow> (Inl e, st1)
      | (Inr processed_data, st1) \<Rightarrow>
          (case read_files E fs st1 of
             (Inl e, st2) \<Rightarrow> (Inl e, st2)
           | (Inr rest, st2) \<Rightarrow> (Inr (processed_data # rest), st2)))"

definition source_data ::
  "'w env \<Rightarrow> string \<Rightarrow> file_info list \<Rightarrow> string \<Rightarrow> pyval \<Rightarrow> 'w state \<Rightarrow> (exn + pyval) \<times> 'w state" where
  "source_data E data_source_type data_files data_url task_plan st =
     (if data_source_type = ''url'' \<or> data_source_type = ''url_in_text'' then
        (case (if data_source_type = ''url_in_text'' \<and> data_url = []
               then (case dict_get task_plan ''plan'' (PStr []) of
                       Inl e \<Rightarrow> Inl e
                     | Inr plan \<Rightarrow> extract_url_from_text plan)
               else Inr data_url) of
           Inl e \<Rightarrow> (Inl e, st)
         | Inr data_url \<Rightarrow> execute_tool E ''web_scraper'' [''url'' \<mapsto> PStr data_url] st)
      else if data_source_type = ''file'' then
        (case read_files E data_files st of
           (Inl e, st1) \<Rightarrow> (Inl e, st1)
         | (Inr processed_files, st1) \<Rightarrow> (Inr (PList processed_files), st1))
      else (Inr (PDict [(''type'', PStr ''text''), (''content'', PStr [])]), st))"

definition extract_metadata ::
  "'w env \<Rightarrow> pyval \<Rightarrow> string \<Rightarrow> 'w state \<Rightarrow> (exn + pyval) \<times> 'w state" where
  "extract_metadata E raw_data data_source_type st =
     execute_tool E ''data_inspector''
       [''data'' \<mapsto> raw_data, ''source_type'' \<mapsto> PStr data_source_type] st"

definition generate_code ::
  "'w env \<Rightarrow> string \<Rightarrow> pyval \<Rightarrow> 'w state \<Rightarrow> (exn + string) \<times> 'w state" where
  "generate_code E questions metadata st =
     (case load_prompt_template E ''2_code_generation'' st of
        Inl e \<Rightarrow> (Inl e, st)
      | Inr prompt_template \<Rightarrow>
          (case json_dumps_indent E metadata of
             Inl e \<Rightarrow> (Inl e, st)
           | Inr metadata_text \<Rightarrow>
               call_llm E (safe_substitute E prompt_template
                             [(''questions'', questions), (''metadata'', metadata_text)]) None st))"

subsection \<open>Stage 6: the execution and correction loop\<close>

definition correct_code ::
  "'w env \<Rightarrow> string \<Rightarrow> string \<Rightarrow> 'w state \<Rightarrow> (exn + string) \<times> 'w state" where
  "correct_code E faulty_code error_message st =
     (let st0 = log_event CorrectionRequest st in
      case load_prompt_template E ''3_code_correction'' st0 of
        Inl e \<Rightarrow> (Inl e, st0)
      | Inr prompt_template \<Rightarrow>
          call_llm E (safe_substitute E prompt_template
                        [(''code'', faulty_code), (''error'', error_message)]) None st0)"

text \<open>The preamble that binds \<open>data\<close> and \<open>metadata\<close> in front of the generated code.\<close>

definition data_injection :: "string \<Rightarrow> string \<Rightarrow> string" where
  "data_injection data_json metadata_json =
     newline @ ''# Data injection'' @ newline @
     ''import json'' @ newline @
     ''data = json.loads(r'' @ sq @ sq @ sq @ data_json @ sq @ sq @ sq @ '')'' @ newline @
     ''metadata = json.loads(r'' @ sq @ sq @ sq @ metadata_json @ sq @ sq @ sq @ '')'' @ newline @
     newline @
     ''# User code starts here'' @ newline"

definition inject_data :: "'w env \<Rightarrow> string \<Rightarrow> pyval \<Rightarrow> exn + string" where
  "inject_data E code raw_data =
     (if raw_data \<noteq> PNone then
        (case json_dumps E raw_data of
           Inl e \<Rightarrow> Inl e
         | Inr data_json \<Rightarrow>
             (case (case raw_data of PDict kvs \<Rightarrow> json_dumps E raw_data | _ \<Rightarrow> Inr ''null'') of
                Inl e \<Rightarrow> Inl e
              | Inr metadata_json \<Rightarrow> Inr (data_injection data_json metadata_json @ code)))
      else Inr code)"

text \<open>
  One pass through the body of \<open>while attempts < self.max_correction_attempts\<close> either
  goes round again, with the new counter and code, or leaves the function: with a result
  (\<open>Inr\<close>) or with an exception that nothing inside caught (\<open>Inl\<close>). The counter is kept
  in both, so that its final value can be stated.
\<close>

datatype 'w step =
    Continue nat string "'w state"
  | Done "exn + exec_result" nat "'w state"

text \<open>
  An exception \<open>e\<close> raised inside the \<open>try\<close>, where the counter stands at \<open>attempts\<close>.
  One outside \<open>Exception\<close> leaves the function. Any other reaches the handler
  \<open>except Exception as e\<close>, which counts an attempt of its own; a correction that raises
  there leaves the function.
\<close>

definition on_exception :: "'w env \<Rightarrow> exn \<Rightarrow> nat \<Rightarrow> string \<Rightarrow> 'w state \<Rightarrow> 'w step" where
  "on_exception E e attempts current_code st =
     (if \<not> is_Exception e then Done (Inl e) attempts st
      else
        let attempts = attempts + 1 in
        if attempts < max_correction_attempts E
        then (case correct_code E current_code (exc_str e) st of
                (Inl e', st1) \<Rightarrow> Done (Inl e') attempts st1
              | (Inr code, st1) \<Rightarrow> Continue attempts code st1)
        else Done (Inr (failure (exc_str e))) attempts st)"

text \<open>A correction asked for inside the \<open>try\<close>: what it raises is raised inside the \<open>try\<close>.\<close>

definition correct_in_try :: "'w env \<Rightarrow> nat \<Rightarrow> string \<Rightarrow> string \<Rightarrow> 'w state \<Rightarrow> 'w step" where
  "correct_in_try E attempts current_code error_message st =
     (case correct_code E current_code error_message st of
        (Inl e, st1) \<Rightarrow> on_exception E e attempts current_code st1
      | (Inr code, st1) \<Rightarrow> Continue attempts code st1)"

text \<open>
  One pass. After a run that failed the counter is raised first and the warning is
  logged next; the warning reads \<open>result['error']\<close> by key, so on a result without that
  key it raises \<open>KeyError\<close> inside the \<open>try\<close>, with the counter already raised.
\<close>

definition cycle :: "'w env \<Rightarrow> nat \<Rightarrow> string \<Rightarrow> 'w state \<Rightarrow> 'w step" where
  "cycle E attempts current_code st =
     (case run (prepare_code E current_code) (log_event PrepareCode st) of
        (Inl e, st1) \<Rightarrow> on_exception E e attempts current_code st1
      | (Inr current_code, st1) \<Rightarrow>
          (case run (validate_code_syntax E current_code) st1 of
             (Inl e, st2) \<Rightarrow> on_exception E e attempts current_code st2
           | (Inr syntax_check, st2) \<Rightarrow>
               if \<not> valid syntax_check then
                 (let attempts = attempts + 1 in
                  if attempts < max_correction_attempts E
                  then correct_in_try E attempts current_code
                         (case syntax_error syntax_check of
                            Some err \<Rightarrow> err
                          | None \<Rightarrow> ''Invalid Python code. Return only Python code.'') st2
                  else Done (Inr (failure (case syntax_error syntax_check of
                                             Some err \<Rightarrow> err | None \<Rightarrow> ''Invalid code'')))
                         attempts st2)
               else
                 (case run (execute_code E current_code) (log_event ExecuteCode st2) of
                    (Inl e, st3) \<Rightarrow> on_exception E e attempts current_code st3
                  | (Inr result, st3) \<Rightarrow>
                      if success result then Done (Inr result) attempts st3
                      else
                        (let attempts = attempts + 1 in
                         case error result of
                           None \<Rightarrow>
                             on_exception E (PyExc ''KeyError'' (sq @ ''error'' @ sq))
                               attempts current_code st3
                         | Some error_message \<Rightarrow>
                             if attempts < max_correction_attempts E
                             then correct_in_try E attempts current_code error_message st3
                             else Done (Inr result) attempts st3))))"

function correction_loop ::
  "'w env \<Rightarrow> nat \<Rightarrow> string \<Rightarrow> 'w state \<Rightarrow> (exn + exec_result) \<times> nat \<times> 'w state" where
  "correction_loop E attempts current_code st =
     (if attempts < max_correction_attempts E
      then (case cycle E attempts current_code st of
              Continue attempts' code' st' \<Rightarrow> correction_loop E attempts' code' st'
            | Done r attempts' st' \<Rightarrow> (r, attempts', st'))
      else (Inr (failure ''Max correction attempts exceeded''), attempts, st))"
  by pat_completeness auto

lemma on_exception_Continue:
  "on_exception E e attempts code st = Continue attempts' code' st' \<Longrightarrow>
     attempts < attempts' \<and> attempts' < max_correction_attempts E"
  by (auto simp: on_exception_def Let_def split: if_splits prod.splits sum.splits)

lemma correct_in_try_Continue:
  "correct_in_try E attempts code msg st = Continue attempts' code' st' \<Longrightarrow>
     attempts < max_correction_attempts E \<Longrightarrow>
     attempts \<le> attempts' \<and> attempts' < max_correction_attempts E"
  by (auto simp: correct_in_try_def split: prod.splits sum.splits
           dest!: on_exception_Continue)

lemma cycle_Continue:
  "cycle E attempts code st = Continue attempts' code' st' \<Longrightarrow>
     attempts < attempts' \<and> attempts' < max_correction_attempts E"
  by (auto simp: cycle_def Let_def split: prod.splits sum.splits if_splits option.splits
           dest!: on_exception_Continue correct_in_try_Continue)

termination correction_loop
  by (relation "measure (\<lambda>(E, attempts, code, st). max_correction_attempts E - attempts)")
     (auto dest!: cycle_Continue)

declare correction_loop.simps [simp del]

definition execute_with_correction ::
  "'w env \<Rightarrow> string \<Rightarrow> pyval \<Rightarrow> 'w state \<Rightarrow> (exn + exec_result) \<times> nat \<times> 'w state" where
  "execute_with_correction E code raw_data st =
     (case inject_data E code raw_data of
        Inl e \<Rightarrow> (Inl e, 0, st)
      | Inr current_code \<Rightarrow> correction_loop E 0 current_code st)"



subsection \<open>Stage 7: the final output\<close>

text \<open>
  \<open>re.search(r'\[.*\]', output, re.DOTALL)\<close>: with \<open>DOTALL\<close> the dot matches every
  character, and the star is greedy, so the match runs from the first \<open>[\<close> to the last
  \<open>]\<close> behind it; there is none when no \<open>]\<close> follows the first \<open>[\<close>.
\<close>

definition search_array_literal :: "string \<Rightarrow> string option" where
  "search_array_literal s =
     (let from_open = dropWhile (\<lambda>c. c \<noteq> CHR ''['') s in
      if from_open = [] then None
      else
        let upto_close = rev (dropWhile (\<lambda>c. c \<noteq> CHR '']'') (rev (tl from_open))) in
        if upto_close = [] then None else Some (CHR ''['' # upto_close))"

text \<open>
  The \<open>results\<close> of a successful run. The handler is
  \<open>except (json.JSONDecodeError, ValueError)\<close>: on these the raw text is the one result;
  any other exception of \<open>json.loads\<close> leaves the function.
\<close>

definition format_results :: "'w env \<Rightarrow> string \<Rightarrow> exn + pyval list" where
  "format_results E out =
     (case search_array_literal out of
        Some json_match \<Rightarrow>
          (case json_loads E json_match of
             Loaded (PList parsed_results) \<Rightarrow> Inr parsed_results
           | Loaded other \<Rightarrow> Inr [PStr out]
           | JSONDecodeError msg \<Rightarrow> Inr [PStr out]
           | OtherValueError msg \<Rightarrow> Inr [PStr out]
           | OtherError e \<Rightarrow> Inl e)
      | None \<Rightarrow> Inr [PStr out])"

text \<open>
  \<open>_format_final_output\<close>. The branch of a failed execution reads
  \<open>execution_result["error"]\<close> by key.
\<close>

definition format_final_output :: "'w env \<Rightarrow> exec_result \<Rightarrow> string \<Rightarrow> exn + pyval" where
  "format_final_output E execution_result original_questions =
     (if success execution_result then
        (case format_results E (output_text execution_result) of
           Inl e \<Rightarrow> Inl e
         | Inr results \<Rightarrow>
             if sublist ''json array'' (lower original_questions) then Inr (PList results)
             else Inr (PDict [(''status'', PStr ''success''),
                              (''questions'', PStr original_questions),
                              (''results'', PList results),
                              (''metadata'', PDict [(''execution_success'', PBool True),
                                                    (''processing_pipeline'', PStr ''completed'')])]))
      else
        (case error execution_result of
           None \<Rightarrow> Inl (PyExc ''KeyError'' (sq @ ''error'' @ sq))
         | Some error_message \<Rightarrow>
             Inr (PDict [(''status'', PStr ''error''),
                         (''questions'', PStr original_questions),
                         (''error'', PStr error_message),
                         (''metadata'', PDict [(''execution_success'', PBool False),
                                               (''processing_pipeline'', PStr ''failed_at_execution'')])])))"

subsection \<open>The request\<close>

definition error_envelope :: "exn \<Rightarrow> pyval" where
  "error_envelope e =
     PDict [(''status'', PStr ''error''),
            (''message'', PStr (''Processing failed: '' @ exc_str e)),
            (''results'', PList [])]"

text \<open>The body of the \<open>try\<close> of \<open>process_request\<close>: the seven steps in order.\<close>

definition pipeline ::
  "'w env \<Rightarrow> string \<Rightarrow> file_info list \<Rightarrow> string \<Rightarrow> 'w state \<Rightarrow> (exn + pyval) \<times> 'w state" where
  "pipeline E questions data_files data_url st =
     (let data_source_type = analyze_data_source questions data_files data_url;
          data_url = (if data_source_type = ''url_in_text'' \<and> extract_url questions \<noteq> []
                      then extract_url questions else data_url)
      in
      case get_task_breakdown E questions st of
        (Inl e, st1) \<Rightarrow> (Inl e, st1)
      | (Inr task_plan, st1) \<Rightarrow>
      (case source_data E data_source_type data_files data_url task_plan st1 of
        (Inl e, st2) \<Rightarrow> (Inl e, st2)
      | (Inr raw_data, st2) \<Rightarrow>
      (case extract_metadata E raw_data data_source_type st2 of
        (Inl e, st3) \<Rightarrow> (Inl e, st3)
      | (Inr metadata, st3) \<Rightarrow>
      (case generate_code E questions metadata st3 of
        (Inl e, st4) \<Rightarrow> (Inl e, st4)
      | (Inr generated_code, st4) \<Rightarrow>
      (case execute_with_correction E generated_code raw_data st4 of
        (Inl e, attempts, st5) \<Rightarrow> (Inl e, st5)
      | (Inr execution_result, attempts, st5) \<Rightarrow>
          (format_final_output E execution_result questions, st5))))))"

text \<open>
  \<open>process_request\<close>: the \<open>try\<close> with its \<open>except Exception\<close>, which answers with the
  error envelope; an exception outside \<open>Exception\<close> leaves the call.
\<close>

definition process_request ::
  "'w env \<Rightarrow> string \<Rightarrow> file_info list \<Rightarrow> string \<Rightarrow> 'w state \<Rightarrow> (exn + pyval) \<times> 'w state" where
  "process_request E questions data_files data_url st =
     (case pipeline E questions data_files data_url st of
        (Inl e, st') \<Rightarrow> (if is_Exception e then Inr (error_envelope e) else Inl e, st')
      | (Inr final_output, st') \<Rightarrow> (Inr final_output, st'))"

section \<open>Sample collaborators\<close>

text \<open>
  Concrete collaborators on which the definitions can be run. The world is a counter of
  what has been asked of it. In \<open>sample_env\<close> everything works: the provider answers
  every prompt with a one-line program, the executor accepts it and prints \<open>[4]\<close>, no
  template file exists, and \<open>json.loads\<close> is given on the texts the examples parse: the
  array \<open>[4]\<close>, the number \<open>42\<close>, the two long texts below and, as texts that are not
  JSON, the rest. \<open>scrape_url\<close> answers as \<open>web_scraper.scrape_url\<close> does for a text
  that is no URL.
\<close>

text \<open>
  Two JSON texts that \<open>json.loads\<close> does not decode: empty arrays nested a hundred
  thousand deep, on which it raises \<open>RecursionError\<close>, and a number of 4301 digits, on
  which it raises \<open>ValueError\<close>.
\<close>

definition deeply_nested :: string where
  "deeply_nested = replicate 100000 (CHR ''['') @ replicate 100000 (CHR '']'')"

definition long_number :: string where
  "long_number = replicate 4301 (CHR ''1'')"

definition sample_env :: "nat env" where
  "sample_env =
     \<lparr>api_key = Some ''k'',
      max_retries = 3,
      retry_delay = 1,
      max_correction_attempts = 3,
      generate_content = (\<lambda>system_message prompt w.
         (Inr \<lparr>resp_text = Some ''print([4])'', candidates = []\<rparr>, Suc w)),
      elapse = (\<lambda>secs w. w),
      read_template = (\<lambda>name w. Inr None),
      default_prompt = (\<lambda>name. ''prompt''),
      safe_substitute = (\<lambda>template kws. template),
      json_loads = (\<lambda>s.
         if s = deeply_nested
         then OtherError (PyExc ''RecursionError''
                ''maximum recursion depth exceeded while decoding a JSON array from a unicode string'')
         else if s = long_number
         then OtherValueError (''Exceeds the limit (4300 digits) for integer string conversion: ''
                @ ''value has 4301 digits; use sys.set_int_max_str_digits() to increase the limit'')
         else if s = ''[4]'' then Loaded (PList [PInt 4])
         else if s = ''42'' then Loaded (PInt 42)
         else if s = ''[4] and [4]'' then JSONDecodeError ''Extra data: line 1 column 5 (char 4)''
         else JSONDecodeError ''Expecting value: line 1 column 1 (char 0)''),
      json_dumps = (\<lambda>v. Inr ''{}''),
      json_dumps_indent = (\<lambda>v. Inr ''{}''),
      prepare_code = (\<lambda>code w. (Inr code, Suc w)),
      validate_code_syntax = (\<lambda>code w. (Inr \<lparr>valid = True, syntax_error = None\<rparr>, Suc w)),
      execute_code = (\<lambda>code w. (Inr \<lparr>success = True, output_text = ''[4]'', error = None\<rparr>, Suc w)),
      scrape_url = (\<lambda>url w.
         (Inr (PDict [(''success'', PBool False), (''error'', PStr ''Invalid URL format''),
                      (''url'', url)]), Suc w)),
      inspect_data = (\<lambda>data source_type w. (Inr (PDict [(''source_type'', source_type)]), Suc w)),
      process_file_content = (\<lambda>name bytes w. (Inr (PDict [(''filename'', name)]), Suc w))\<rparr>"

text \<open>A provider that fails every call, each time with another error text.\<close>

definition failing_provider_env :: "nat env" where
  "failing_provider_env =
     sample_env\<lparr>generate_content := (\<lambda>system_message prompt w.
        (Inl (PyExc ''RuntimeError'' (''unavailable '' @ replicate w (CHR ''!''))), Suc w))\<rparr>"

text \<open>
  The same provider with no attempt allowed, with a negative delay, and with a delay
  beyond what \<open>time.sleep\<close> converts.
\<close>

definition no_retries_env :: "nat env" where
  "no_retries_env = failing_provider_env\<lparr>max_retries := 0\<rparr>"

definition negative_delay_env :: "nat env" where
  "negative_delay_env = failing_provider_env\<lparr>retry_delay := - 1\<rparr>"

definition huge_delay_env :: "nat env" where
  "huge_delay_env = failing_provider_env\<lparr>retry_delay := 9223372037\<rparr>"

text \<open>A provider whose call is interrupted from the keyboard.\<close>

definition interrupted_env :: "nat env" where
  "interrupted_env =
     sample_env\<lparr>generate_content := (\<lambda>system_message prompt w.
        (Inl (PyExc ''KeyboardInterrupt'' []), Suc w))\<rparr>"

text \<open>No credential (and the failing provider behind it).\<close>

definition no_key_env :: "nat env" where
  "no_key_env = failing_provider_env\<lparr>api_key := None\<rparr>"

text \<open>A provider whose reply is the JSON text \<open>42\<close>, and one whose reply is plain prose.\<close>

definition number_reply_env :: "nat env" where
  "number_reply_env =
     sample_env\<lparr>generate_content := (\<lambda>system_message prompt w.
        (Inr \<lparr>resp_text = Some ''42'', candidates = []\<rparr>, Suc w))\<rparr>"

definition prose_reply_env :: "nat env" where
  "prose_reply_env =
     sample_env\<lparr>generate_content := (\<lambda>system_message prompt w.
        (Inr \<lparr>resp_text = Some ''read the page and count'', candidates = []\<rparr>, Suc w))\<rparr>"

text \<open>A provider whose reply is the number of 4301 digits.\<close>

definition long_number_reply_env :: "nat env" where
  "long_number_reply_env =
     sample_env\<lparr>generate_content := (\<lambda>system_message prompt w.
        (Inr \<lparr>resp_text = Some long_number, candidates = []\<rparr>, Suc w))\<rparr>"

text \<open>
  An executor on which every program fails at run time: with its error text, and with a
  result that has no \<open>error\<close>.
\<close>

definition failing_executor_env :: "nat env" where
  "failing_executor_env =
     sample_env\<lparr>execute_code := (\<lambda>code w.
        (Inr \<lparr>success = False, output_text = [], error = Some ''NameError''\<rparr>, Suc w))\<rparr>"

definition errorless_executor_env :: "nat env" where
  "errorless_executor_env =
     sample_env\<lparr>execute_code := (\<lambda>code w.
        (Inr \<lparr>success = False, output_text = [], error = None\<rparr>, Suc w))\<rparr>"

text \<open>An executor on which every program prints the deeply nested arrays.\<close>

definition nested_output_env :: "nat env" where
  "nested_output_env =
     sample_env\<lparr>execute_code := (\<lambda>code w.
        (Inr \<lparr>success = True, output_text = deeply_nested, error = None\<rparr>, Suc w))\<rparr>"

definition start :: "nat state" where
  "start = \<lparr>world = 0, trace = []\<rparr>"

section \<open>Evaluating the definitions\<close>

text \<open>The equations by which the simplifier runs the definitions on the samples.\<close>

lemma lower_simps: "lower [] = []" "lower (c # cs) = lower_char c # lower cs"
  by (simp_all add: lower_def)

lemmas text_eval = lower_simps lower_char_def upper_chars_def lower_chars_def is_space_def
  strip_def sublist_code

lemmas slice_eval = slice_to_def slice_from_def truncate_prompt_def estimate_tokens_def
  truncation_marker_def newline_def

text \<open>The two long texts differ from each other and from every short text.\<close>

lemma length_long_texts: "length deeply_nested = 200000" "length long_number = 4301"
  by (simp_all add: deeply_nested_def long_number_def)

lemma long_texts_neq:
  "length s < 4301 \<Longrightarrow> (s = deeply_nested) = False"
  "length s < 4301 \<Longrightarrow> (s = long_number) = False"
  "(long_number = deeply_nested) = False"
  using length_long_texts by auto

lemmas sample_envs = long_texts_neq
  sample_env_def failing_provider_env_def no_retries_env_def negative_delay_env_def
  no_key_env_def number_reply_env_def prose_reply_env_def failing_executor_env_def start_def
  huge_delay_env_def interrupted_env_def long_number_reply_env_def errorless_executor_env_def
  nested_output_env_def

lemmas gateway_eval =
  load_prompt_template_def call_llm_def truncate_prompt_def estimate_tokens_def
  extract_text_def strip_def is_space_def log_event_def upt_rec Let_def
  is_Exception_def outside_Exception_def

lemmas loop_eval =
  execute_with_correction_def inject_data_def correction_loop.simps cycle_def on_exception_def
  correct_in_try_def correct_code_def load_prompt_template_def call_llm_def
  truncate_prompt_def estimate_tokens_def extract_text_def strip_def is_space_def
  run_def log_event_def upt_rec Let_def failure_def is_Exception_def outside_Exception_def

lemmas pipeline_eval =
  process_request_def pipeline_def analyze_data_source_def extract_url_def match_url_def
  get_task_breakdown_def source_data_def dict_get_def extract_url_from_text_def
  extract_metadata_def generate_code_def execute_tool_def available_tools_def
  execute_web_scraper_def execute_data_inspector_def get_param_def format_final_output_def
  format_results_def search_array_literal_def is_Exception_def outside_Exception_def

section \<open>Facts about text\<close>

lemma dropWhile_all_iff: "(\<forall>x\<in>set (dropWhile P xs). P x) \<longleftrightarrow> (\<forall>x\<in>set xs. P x)"
proof
  assume all: "\<forall>x\<in>set (dropWhile P xs). P x"
  have "dropWhile P xs = []"
  proof (rule ccontr)
    assume ne: "dropWhile P xs \<noteq> []"
    then have "\<not> P (hd (dropWhile P xs))" by (rule hd_dropWhile)
    moreover from ne have "hd (dropWhile P xs) \<in> set (dropWhile P xs)" by simp
    ultimately show False using all by blast
  qed
  then show "\<forall>x\<in>set xs. P x" by (simp add: dropWhile_eq_Nil_conv)
next
  assume "\<forall>x\<in>set xs. P x"
  then show "\<forall>x\<in>set (dropWhile P xs). P x" by (auto dest: set_dropWhileD)
qed

lemma strip_eq_Nil_iff: "strip s = [] \<longleftrightarrow> (\<forall>c\<in>set s. is_space c)"
  by (simp add: strip_def dropWhile_eq_Nil_conv dropWhile_all_iff)

lemma sublist_lower_iff:
  "sublist p (lower q) \<longleftrightarrow> (\<exists>ps w ss. q = ps @ w @ ss \<and> lower w = p)"
proof
  assume "sublist p (lower q)"
  then obtain a b where "map lower_char q = a @ p @ b"
    by (auto simp: sublist_def lower_def)
  then obtain ps r where q: "q = ps @ r" and r: "map lower_char r = p @ b"
    by (metis map_eq_append_conv)
  from r obtain w ss where "r = w @ ss" and "map lower_char w = p"
    by (metis map_eq_append_conv)
  with q show "\<exists>ps w ss. q = ps @ w @ ss \<and> lower w = p"
    by (auto simp: lower_def)
next
  assume "\<exists>ps w ss. q = ps @ w @ ss \<and> lower w = p"
  then obtain ps w ss where "q = ps @ w @ ss" and "lower w = p"
    by blast
  then have "lower q = lower ps @ p @ lower ss"
    by (simp add: lower_def)
  then show "sublist p (lower q)"
    unfolding sublist_def by blast
qed

section \<open>The data source\<close>

text \<open>
  C3 (amended). The source type is decided by a chain of three tests in this order. It is
  \<open>url\<close> when \<open>data_url\<close> has a character that is not whitespace; a \<open>data_url\<close> that
  is empty or only whitespace does not count. Otherwise it is \<open>file\<close> when a file was
  uploaded; otherwise \<open>url_in_text\<close> when the question has a part that reads \<open>http\<close>
  or \<open>www.\<close> up to letter case; otherwise \<open>text_only\<close>.
\<close>

theorem analyze_data_source_chain:
  "analyze_data_source questions data_files data_url =
     (if \<exists>c\<in>set data_url. \<not> is_space c then ''url''
      else if data_files \<noteq> [] then ''file''
      else if \<exists>ps w ss. questions = ps @ w @ ss \<and> (lower w = ''http'' \<or> lower w = ''www.'')
        then ''url_in_text''
      else ''text_only'')"
proof -
  have by_url: "(data_url \<noteq> [] \<and> strip data_url \<noteq> []) \<longleftrightarrow> (\<exists>c\<in>set data_url. \<not> is_space c)"
    by (auto simp: strip_eq_Nil_iff)
  have by_text: "(sublist ''http'' (lower questions) \<or> sublist ''www.'' (lower questions)) \<longleftrightarrow>
             (\<exists>ps w ss. questions = ps @ w @ ss \<and> (lower w = ''http'' \<or> lower w = ''www.''))"
    unfolding sublist_lower_iff by blast
  show ?thesis
    unfolding analyze_data_source_def by_url by_text by (rule refl)
qed

text \<open>
  The four examples of the spec: a URL given, one file and no URL, a question that names
  a site, and none of these.
\<close>

theorem analyze_data_source_chain_witness:
  "analyze_data_source ''What is 2+2?'' [] ''http://x'' = ''url'' \<and>
   analyze_data_source ''What is 2+2?'' [\<lparr>filename = ''a.csv'', content = ''1''\<rparr>] [] = ''file'' \<and>
   analyze_data_source ''see WWW.example.com'' [] [] = ''url_in_text'' \<and>
   analyze_data_source ''What is 2+2?'' [] [] = ''text_only''"
proof -
  have given: "\<exists>c\<in>set ''http://x''. \<not> is_space c"
    by (simp add: is_space_def)
  have not_given: "\<not> (\<exists>c\<in>set []. \<not> is_space c)"
    by simp
  have one_file: "[\<lparr>filename = ''a.csv'', content = ''1''\<rparr>] \<noteq> []"
    and no_file: "\<not> ([] :: file_info list) \<noteq> []"
    by simp_all
  have named: "\<exists>ps w ss. ''see WWW.example.com'' = ps @ w @ ss \<and>
      (lower w = ''http'' \<or> lower w = ''www.'')"
    by (rule exI [of _ "''see ''"], rule exI [of _ "''WWW.''"], rule exI [of _ "''example.com''"])
       (simp add: text_eval)
  have "\<not> sublist ''http'' (lower ''What is 2+2?'')" "\<not> sublist ''www.'' (lower ''What is 2+2?'')"
    by (simp_all add: text_eval)
  then have not_named: "\<not> (\<exists>ps w ss. ''What is 2+2?'' = ps @ w @ ss \<and>
      (lower w = ''http'' \<or> lower w = ''www.''))"
    unfolding sublist_lower_iff by blast
  from given have "analyze_data_source ''What is 2+2?'' [] ''http://x'' = ''url''"
    by (subst analyze_data_source_chain) (simp only: if_P if_not_P if_True if_False simp_thms)
  moreover from not_given one_file
  have "analyze_data_source ''What is 2+2?'' [\<lparr>filename = ''a.csv'', content = ''1''\<rparr>] [] = ''file''"
    by (subst analyze_data_source_chain) (simp only: if_P if_not_P if_True if_False simp_thms)
  moreover from not_given no_file named
  have "analyze_data_source ''see WWW.example.com'' [] [] = ''url_in_text''"
    by (subst analyze_data_source_chain) (simp only: if_P if_not_P if_True if_False simp_thms)
  moreover from not_given no_file not_named
  have "analyze_data_source ''What is 2+2?'' [] [] = ''text_only''"
    by (subst analyze_data_source_chain) (simp only: if_P if_not_P if_True if_False simp_thms)
  ultimately show ?thesis
    by (simp only: simp_thms)
qed

text \<open>
  C3 as stated asks for \<open>url\<close> whenever \<open>data_url\<close> is not empty. A \<open>data_url\<close> of one
  space is not empty, and the request is classified by the later tests.
\<close>

theorem analyze_data_source_blank_url:
  "'' '' \<noteq> [] \<and> analyze_data_source ''What is 2+2?'' [] '' '' = ''text_only''"
  by (simp add: analyze_data_source_def text_eval)

section \<open>Prompt truncation\<close>

lemma truncation_marker_length: "length truncation_marker = 34"
  by (simp add: truncation_marker_def newline_def)

lemma truncate_prompt_within:
  "estimate_tokens prompt \<le> budget \<Longrightarrow> truncate_prompt prompt budget = prompt"
  by (simp add: truncate_prompt_def)

lemma truncate_prompt_beyond:
  assumes "0 < budget" and "budget < estimate_tokens prompt"
  shows "truncate_prompt prompt budget =
           take (nat (2 * budget)) prompt @ truncation_marker @
           drop (length prompt - nat (2 * budget)) prompt"
proof -
  from assms have long: "budget * 4 < int (length prompt)"
    by (simp add: estimate_tokens_def)
  have half: "budget * 4 div 2 = 2 * budget"
    by simp
  have head: "slice_to prompt (2 * budget) = take (nat (2 * budget)) prompt"
    using assms(1) by (simp add: slice_to_def)
  have tail: "slice_from prompt (- (2 * budget)) = drop (length prompt - nat (2 * budget)) prompt"
  proof -
    from assms(1) have "nat (int (length prompt) + - (2 * budget)) = length prompt - nat (2 * budget)"
      by linarith
    with assms(1) show ?thesis
      by (simp add: slice_from_def)
  qed
  from assms(2) long show ?thesis
    by (simp add: truncate_prompt_def Let_def half head tail)
qed

text \<open>
  C2 (amended). Truncation is a function of the prompt and the budget. A prompt whose
  estimate (length div 4) is at most the budget comes back unchanged. For a budget of
  at least 1 and a prompt whose estimate exceeds it, the result is the first
  \<open>2 * budget\<close> characters of the prompt, the marker, and the last \<open>2 * budget\<close>
  characters of the prompt; the marker is the 34 characters
  \<open>\n\n... [TRUNCATED FOR LENGTH] ...\n\n\<close>, so the result has \<open>4 * budget + 34\<close>
  characters, and its head and tail are those of the prompt.
\<close>

theorem truncate_prompt_amended:
  "(estimate_tokens prompt \<le> budget \<longrightarrow> truncate_prompt prompt budget = prompt) \<and>
   (0 < budget \<and> budget < estimate_tokens prompt \<longrightarrow>
      truncate_prompt prompt budget =
        take (nat (2 * budget)) prompt @ truncation_marker @
        drop (length prompt - nat (2 * budget)) prompt \<and>
      length (truncate_prompt prompt budget) = nat (budget * 4) + length truncation_marker \<and>
      length truncation_marker = 34 \<and>
      take (nat (2 * budget)) (truncate_prompt prompt budget) = take (nat (2 * budget)) prompt \<and>
      drop (length (truncate_prompt prompt budget) - nat (2 * budget))
           (truncate_prompt prompt budget) = drop (length prompt - nat (2 * budget)) prompt)"
proof (intro conjI impI)
  assume "estimate_tokens prompt \<le> budget"
  then show "truncate_prompt prompt budget = prompt"
    by (rule truncate_prompt_within)
next
  assume h: "0 < budget \<and> budget < estimate_tokens prompt"
  then have eq: "truncate_prompt prompt budget =
           take (nat (2 * budget)) prompt @ truncation_marker @
           drop (length prompt - nat (2 * budget)) prompt"
    by (simp add: truncate_prompt_beyond)
  from h have long: "nat (2 * budget) + nat (2 * budget) \<le> length prompt"
    by (simp add: estimate_tokens_def) linarith
  show "truncate_prompt prompt budget =
           take (nat (2 * budget)) prompt @ truncation_marker @
           drop (length prompt - nat (2 * budget)) prompt"
    by (rule eq)
  from h long show len: "length (truncate_prompt prompt budget) = nat (budget * 4) + length truncation_marker"
    unfolding eq by (simp add: min_def) linarith
  show "length truncation_marker = 34"
    by (rule truncation_marker_length)
  from long show "take (nat (2 * budget)) (truncate_prompt prompt budget) = take (nat (2 * budget)) prompt"
    unfolding eq by simp
  from long have "length (take (nat (2 * budget)) prompt @ truncation_marker @
           drop (length prompt - nat (2 * budget)) prompt) - nat (2 * budget)
      = length (take (nat (2 * budget)) prompt @ truncation_marker)"
    by simp
  then show "drop (length (truncate_prompt prompt budget) - nat (2 * budget))
           (truncate_prompt prompt budget) = drop (length prompt - nat (2 * budget)) prompt"
    unfolding eq by (simp only: append_assoc [symmetric] drop_append length_drop) simp
qed

text \<open>The amended statement at a prompt of eight characters and a budget of one token.\<close>

theorem truncate_prompt_amended_witness:
  "estimate_tokens ''abcd'' \<le> 1 \<and> truncate_prompt ''abcd'' 1 = ''abcd'' \<and>
   (0::int) < 1 \<and> 1 < estimate_tokens ''abcdefgh'' \<and>
   truncate_prompt ''abcdefgh'' 1 = ''ab'' @ truncation_marker @ ''gh'' \<and>
   length (truncate_prompt ''abcdefgh'' 1) = 38"
proof -
  have short: "estimate_tokens ''abcd'' \<le> 1"
    by (simp add: estimate_tokens_def)
  have long: "(0::int) < 1 \<and> 1 < estimate_tokens ''abcdefgh''"
    by (simp add: estimate_tokens_def)
  from short long truncate_prompt_amended [of "''abcd''" 1]
    truncate_prompt_amended [of "''abcdefgh''" 1]
  show ?thesis
    by simp
qed

text \<open>
  C2 as stated fails twice. The marker in the code is not \<open>...[TRUNCATED FOR LENGTH]...\<close>:
  it has blanks inside and two line feeds on each side, so the length is not
  \<open>budget * 4\<close> plus the length of that text. And with a budget of 0 the slice
  \<open>prompt[-0:]\<close> is the whole prompt, so the result is longer than the marker.
\<close>

theorem truncate_prompt_as_stated_fails:
  "1 < estimate_tokens ''abcdefgh'' \<and>
   length (truncate_prompt ''abcdefgh'' 1) \<noteq> nat (1 * 4) + length ''...[TRUNCATED FOR LENGTH]...'' \<and>
   0 < estimate_tokens ''abcd'' \<and>
   length (truncate_prompt ''abcd'' 0) \<noteq> nat (0 * 4) + length truncation_marker"
  by (simp add: slice_eval)


section \<open>Tool dispatch\<close>

text \<open>
  C8. A tool name outside the three registered ones is refused before anything runs, with
  the \<open>ValueError\<close> that says the tool was not found and lists the registered names.
  A registered tool called without its required parameter (\<open>url\<close> for \<open>web_scraper\<close>,
  \<open>content\<close> for \<open>data_reader\<close>, \<open>data\<close> for \<open>data_inspector\<close>) is refused with the
  \<open>ValueError\<close> that names the parameter, and the tool itself is not run: the state is
  the one before the call. These two \<open>ValueError\<close>s are what the spec calls
  \<open>ToolNotFoundError\<close> and \<open>ToolParameterError\<close>.
\<close>

theorem execute_tool_errors:
  "(tool_name \<notin> {''web_scraper'', ''data_inspector'', ''data_reader''} \<longrightarrow>
      execute_tool E tool_name parameters st =
        (Inl (PyExc ''ValueError''
               (''Tool '' @ sq @ tool_name @ sq @ '' not found. Available tools: ['' @
                sq @ ''web_scraper'' @ sq @ '', '' @ sq @ ''data_inspector'' @ sq @ '', '' @
                sq @ ''data_reader'' @ sq @ '']'')), st)) \<and>
   (parameters ''url'' = None \<longrightarrow>
      execute_tool E ''web_scraper'' parameters st =
        (Inl (PyExc ''ValueError'' ''URL parameter is required for web scraper''), st)) \<and>
   (parameters ''content'' = None \<longrightarrow>
      execute_tool E ''data_reader'' parameters st =
        (Inl (PyExc ''ValueError'' ''Content parameter is required for data reader''), st)) \<and>
   (parameters ''data'' = None \<longrightarrow>
      execute_tool E ''data_inspector'' parameters st =
        (Inl (PyExc ''ValueError'' ''Data parameter is required for data inspector''), st))"
proof (intro conjI impI)
  assume "tool_name \<notin> {''web_scraper'', ''data_inspector'', ''data_reader''}"
  then show "execute_tool E tool_name parameters st =
        (Inl (PyExc ''ValueError''
               (''Tool '' @ sq @ tool_name @ sq @ '' not found. Available tools: ['' @
                sq @ ''web_scraper'' @ sq @ '', '' @ sq @ ''data_inspector'' @ sq @ '', '' @
                sq @ ''data_reader'' @ sq @ '']'')), st)"
    by (simp add: execute_tool_def available_tools_def list_repr_def)
next
  assume "parameters ''url'' = None"
  then show "execute_tool E ''web_scraper'' parameters st =
        (Inl (PyExc ''ValueError'' ''URL parameter is required for web scraper''), st)"
    by (simp add: execute_tool_def available_tools_def execute_web_scraper_def get_param_def)
next
  assume "parameters ''content'' = None"
  then show "execute_tool E ''data_reader'' parameters st =
        (Inl (PyExc ''ValueError'' ''Content parameter is required for data reader''), st)"
    by (simp add: execute_tool_def available_tools_def execute_data_reader_def get_param_def)
next
  assume "parameters ''data'' = None"
  then show "execute_tool E ''data_inspector'' parameters st =
        (Inl (PyExc ''ValueError'' ''Data parameter is required for data inspector''), st)"
    by (simp add: execute_tool_def available_tools_def execute_data_inspector_def get_param_def)
qed

text \<open>
  The four refusals on sample calls: an unknown tool, and each registered tool with a
  parameter dict that lacks the required key.
\<close>

theorem execute_tool_errors_witness:
  "''data_writer'' \<notin> {''web_scraper'', ''data_inspector'', ''data_reader''} \<and>
   fst (execute_tool sample_env ''data_writer'' [''url'' \<mapsto> PStr ''http://x''] start) =
     Inl (PyExc ''ValueError''
           (''Tool '' @ sq @ ''data_writer'' @ sq @ '' not found. Available tools: ['' @
            sq @ ''web_scraper'' @ sq @ '', '' @ sq @ ''data_inspector'' @ sq @ '', '' @
            sq @ ''data_reader'' @ sq @ '']'')) \<and>
   [''filename'' \<mapsto> PStr ''a.csv''] ''url'' = None \<and>
   [''filename'' \<mapsto> PStr ''a.csv''] ''content'' = None \<and>
   [''filename'' \<mapsto> PStr ''a.csv''] ''data'' = None \<and>
   execute_tool sample_env ''web_scraper'' [''filename'' \<mapsto> PStr ''a.csv''] start =
     (Inl (PyExc ''ValueError'' ''URL parameter is required for web scraper''), start) \<and>
   execute_tool sample_env ''data_reader'' [''filename'' \<mapsto> PStr ''a.csv''] start =
     (Inl (PyExc ''ValueError'' ''Content parameter is required for data reader''), start) \<and>
   execute_tool sample_env ''data_inspector'' [''filename'' \<mapsto> PStr ''a.csv''] start =
     (Inl (PyExc ''ValueError'' ''Data parameter is required for data inspector''), start)"
proof -
  have unknown: "''data_writer'' \<notin> {''web_scraper'', ''data_inspector'', ''data_reader''}"
    by simp
  have missing: "[''filename'' \<mapsto> PStr ''a.csv''] ''url'' = None"
    "[''filename'' \<mapsto> PStr ''a.csv''] ''content'' = None"
    "[''filename'' \<mapsto> PStr ''a.csv''] ''data'' = None"
    by simp_all
  from unknown missing
    execute_tool_errors [of "''data_writer''" sample_env "[''url'' \<mapsto> PStr ''http://x'']" start]
    execute_tool_errors [of "''web_scraper''" sample_env "[''filename'' \<mapsto> PStr ''a.csv'']" start]
  show ?thesis
    by simp
qed

section \<open>Facts about traces\<close>

lemma model_calls_simps [simp]:
  "model_calls [] = 0"
  "model_calls (ModelCall p r # evs) = Suc (model_calls evs)"
  "model_calls (Sleep d # evs) = model_calls evs"
  "model_calls (CorrectionRequest # evs) = model_calls evs"
  "model_calls (PrepareCode # evs) = model_calls evs"
  "model_calls (ExecuteCode # evs) = model_calls evs"
  "model_calls (evs @ evs') = model_calls evs + model_calls evs'"
  by (simp_all add: model_calls_def)

lemma sleeps_simps [simp]:
  "sleeps [] = []"
  "sleeps (ModelCall p r # evs) = sleeps evs"
  "sleeps (Sleep d # evs) = sleeps evs @ [d]"
  "sleeps (CorrectionRequest # evs) = sleeps evs"
  "sleeps (PrepareCode # evs) = sleeps evs"
  "sleeps (ExecuteCode # evs) = sleeps evs"
  "sleeps (evs @ evs') = sleeps evs' @ sleeps evs"
  by (simp_all add: sleeps_def)


section \<open>The retry loop of the gateway\<close>







section \<open>The correction loop\<close>

lemma counts_simps [simp]:
  "corrections [] = 0" "cycles [] = 0" "executions [] = 0"
  "corrections (CorrectionRequest # evs) = Suc (corrections evs)"
  "corrections (ModelCall p r # evs) = corrections evs"
  "corrections (Sleep d # evs) = corrections evs"
  "corrections (PrepareCode # evs) = corrections evs"
  "corrections (ExecuteCode # evs) = corrections evs"
  "cycles (PrepareCode # evs) = Suc (cycles evs)"
  "cycles (ModelCall p r # evs) = cycles evs"
  "cycles (Sleep d # evs) = cycles evs"
  "cycles (CorrectionRequest # evs) = cycles evs"
  "cycles (ExecuteCode # evs) = cycles evs"
  "executions (ExecuteCode # evs) = Suc (executions evs)"
  "executions (ModelCall p r # evs) = executions evs"
  "executions (Sleep d # evs) = executions evs"
  "executions (CorrectionRequest # evs) = executions evs"
  "executions (PrepareCode # evs) = executions evs"
  by (simp_all add: corrections_def cycles_def executions_def)

lemma trace_log_event [simp]: "trace (log_event ev st) = ev # trace st"
  by (simp add: log_event_def)


lemma same_counts_refl [simp]: "same_counts st st"
  by (simp add: same_counts_def)


lemma same_counts_model_call [simp]:
  "same_counts st (log_event (ModelCall p r) (st\<lparr>world := w\<rparr>))"
  by (simp add: same_counts_def)





lemma failure_simps [simp]:
  "success (failure msg) = False" "output_text (failure msg) = []" "error (failure msg) = Some msg"
  by (simp_all add: failure_def)













lemma sample_run:
  "execute_with_correction sample_env ''print([4])'' PNone start =
     (Inr \<lparr>success = True, output_text = ''[4]'', error = None\<rparr>, 0,
      \<lparr>world = 3, trace = [ExecuteCode, PrepareCode]\<rparr>)"
  by (simp add: loop_eval sample_envs)

text \<open>
  C1 does not hold of a run that fails without an error text. Take the bound of 3 and an
  executor whose failed result has no \<open>error\<close>. In the first pass the counter is raised
  to 1, the warning's \<open>result['error']\<close> raises \<open>KeyError\<close>, and the handler raises the
  counter again, to 2, and asks for a correction. The second pass takes the counter to 3
  and then, in the handler, to 4: one above the bound. Two passes were made, not three,
  and the result is a failure with the text of the \<open>KeyError\<close>. (The syntax branch beside
  it reads its error with a default, \<open>syntax_check.get("error", ...)\<close>, and the handler
  uses \<open>str(e)\<close>; only this branch reads by key.)
\<close>

theorem attempts_exceed_bound:
  "max_correction_attempts errorless_executor_env = 3 \<and>
   execute_with_correction errorless_executor_env ''print(x)'' PNone start =
     (Inr \<lparr>success = False, output_text = [], error = Some (sq @ ''error'' @ sq)\<rparr>, 4,
      \<lparr>world = 7,
       trace = [ExecuteCode, PrepareCode, ModelCall ''prompt'' None, CorrectionRequest,
                ExecuteCode, PrepareCode]\<rparr>)"
  by (simp add: loop_eval sample_envs)



section \<open>The final output\<close>

lemma search_array_literal_found:
  assumes "CHR ''['' \<notin> set pre" and "CHR '']'' \<notin> set post"
  shows "search_array_literal (pre @ ''['' @ mid @ '']'' @ post) = Some (''['' @ mid @ '']'')"
proof -
  from assms(1) have "dropWhile (\<lambda>c. c \<noteq> CHR ''['') pre = []"
    by (auto simp: dropWhile_eq_Nil_conv)
  then have open_at: "dropWhile (\<lambda>c. c \<noteq> CHR ''['') (pre @ ''['' @ mid @ '']'' @ post) =
      ''['' @ mid @ '']'' @ post"
    by (simp add: dropWhile_append3)
  from assms(2) have "dropWhile (\<lambda>c. c \<noteq> CHR '']'') (rev post) = []"
    by (auto simp: dropWhile_eq_Nil_conv)
  then have "dropWhile (\<lambda>c. c \<noteq> CHR '']'') (rev (mid @ '']'' @ post)) = CHR '']'' # rev mid"
    by (simp add: dropWhile_append3)
  then have close_at: "rev (dropWhile (\<lambda>c. c \<noteq> CHR '']'') (rev (mid @ '']'' @ post))) = mid @ '']''"
    by simp
  show ?thesis
    unfolding search_array_literal_def open_at using close_at by (simp add: Let_def)
qed



lemma search_array_literal_deeply_nested:
  "search_array_literal deeply_nested = Some deeply_nested"
proof -
  have "replicate 100000 (CHR ''['') = ''['' @ replicate 99999 (CHR ''['')"
    by (simp add: replicate_Suc [symmetric] del: replicate_Suc)
  moreover have "replicate 100000 (CHR '']'') = replicate 99999 (CHR '']'') @ '']''"
    by (simp add: replicate_append_same replicate_Suc [symmetric] del: replicate_Suc)
  ultimately have eq: "deeply_nested =
      [] @ ''['' @ (replicate 99999 (CHR ''['') @ replicate 99999 (CHR '']'')) @ '']'' @ []"
    by (simp add: deeply_nested_def)
  have "search_array_literal
      ([] @ ''['' @ (replicate 99999 (CHR ''['') @ replicate 99999 (CHR '']'')) @ '']'' @ []) =
      Some (''['' @ (replicate 99999 (CHR ''['') @ replicate 99999 (CHR '']'')) @ '']'')"
    by (rule search_array_literal_found) simp_all
  then show ?thesis
    by (simp add: eq)
qed




section \<open>The task plan\<close>





section \<open>The request\<close>

text \<open>
  C4 (amended). \<open>process_request\<close> never raises an exception that \<open>except Exception\<close>
  catches. Whichever of the stages raises such an exception \<open>e\<close> (the task breakdown,
  the data sourcing, the metadata extraction, the code generation, the execution loop, or
  the final formatting; the classification of the first stage cannot raise on texts), the
  answer is the error envelope
  \<open>{status: error, message: "Processing failed: " + str(e), results: []}\<close>, and no stage
  behind it runs. An exception outside \<open>Exception\<close> that a stage raises is not caught: it
  leaves the call. When no stage raises, the answer is the formatted output.
\<close>

theorem process_request_envelope:
  assumes "data_source_type = analyze_data_source questions data_files data_url"
    and "url = (if data_source_type = ''url_in_text'' \<and> extract_url questions \<noteq> []
                then extract_url questions else data_url)"
  shows
    "(\<forall>e st'. process_request E questions data_files data_url st = (Inl e, st') \<longrightarrow>
        \<not> is_Exception e) \<and>
     (\<forall>e st1. get_task_breakdown E questions st = (Inl e, st1) \<longrightarrow>
        process_request E questions data_files data_url st =
          (if is_Exception e then Inr (error_envelope e) else Inl e, st1)) \<and>
     (\<forall>task_plan st1. get_task_breakdown E questions st = (Inr task_plan, st1) \<longrightarrow>
       (\<forall>e st2. source_data E data_source_type data_files url task_plan st1 = (Inl e, st2) \<longrightarrow>
          process_request E questions data_files data_url st =
            (if is_Exception e then Inr (error_envelope e) else Inl e, st2)) \<and>
       (\<forall>raw_data st2.
          source_data E data_source_type data_files url task_plan st1 = (Inr raw_data, st2) \<longrightarrow>
         (\<forall>e st3. extract_metadata E raw_data data_source_type st2 = (Inl e, st3) \<longrightarrow>
            process_request E questions data_files data_url st =
              (if is_Exception e then Inr (error_envelope e) else Inl e, st3)) \<and>
         (\<forall>metadata st3. extract_metadata E raw_data data_source_type st2 = (Inr metadata, st3) \<longrightarrow>
           (\<forall>e st4. generate_code E questions metadata st3 = (Inl e, st4) \<longrightarrow>
              process_request E questions data_files data_url st =
                (if is_Exception e then Inr (error_envelope e) else Inl e, st4)) \<and>
           (\<forall>generated_code st4. generate_code E questions metadata st3 = (Inr generated_code, st4) \<longrightarrow>
             (\<forall>e attempts st5.
                execute_with_correction E generated_code raw_data st4 = (Inl e, attempts, st5) \<longrightarrow>
                process_request E questions data_files data_url st =
                  (if is_Exception e then Inr (error_envelope e) else Inl e, st5)) \<and>
             (\<forall>execution_result attempts st5.
                execute_with_correction E generated_code raw_data st4 =
                  (Inr execution_result, attempts, st5) \<longrightarrow>
                (\<forall>e. format_final_output E execution_result questions = Inl e \<longrightarrow>
                   process_request E questions data_files data_url st =
                     (if is_Exception e then Inr (error_envelope e) else Inl e, st5)) \<and>
                (\<forall>final_output.
                   format_final_output E execution_result questions = Inr final_output \<longrightarrow>
                   process_request E questions data_files data_url st =
                     (Inr final_output, st5)))))))"
proof (rule conjI)
  show "\<forall>e st'. process_request E questions data_files data_url st = (Inl e, st') \<longrightarrow>
      \<not> is_Exception e"
    by (auto simp: process_request_def split: prod.splits sum.splits if_splits)
next
  from assms show "(\<forall>e st1. get_task_breakdown E questions st = (Inl e, st1) \<longrightarrow>
        process_request E questions data_files data_url st =
          (if is_Exception e then Inr (error_envelope e) else Inl e, st1)) \<and>
     (\<forall>task_plan st1. get_task_breakdown E questions st = (Inr task_plan, st1) \<longrightarrow>
       (\<forall>e st2. source_data E data_source_type data_files url task_plan st1 = (Inl e, st2) \<longrightarrow>
          process_request E questions data_files data_url st =
            (if is_Exception e then Inr (error_envelope e) else Inl e, st2)) \<and>
       (\<forall>raw_data st2.
          source_data E data_source_type data_files url task_plan st1 = (Inr raw_data, st2) \<longrightarrow>
         (\<forall>e st3. extract_metadata E raw_data data_source_type st2 = (Inl e, st3) \<longrightarrow>
            process_request E questions data_files data_url st =
              (if is_Exception e then Inr (error_envelope e) else Inl e, st3)) \<and>
         (\<forall>metadata st3. extract_metadata E raw_data data_source_type st2 = (Inr metadata, st3) \<longrightarrow>
           (\<forall>e st4. generate_code E questions metadata st3 = (Inl e, st4) \<longrightarrow>
              process_request E questions data_files data_url st =
                (if is_Exception e then Inr (error_envelope e) else Inl e, st4)) \<and>
           (\<forall>generated_code st4. generate_code E questions metadata st3 = (Inr generated_code, st4) \<longrightarrow>
             (\<forall>e attempts st5.
                execute_with_correction E generated_code raw_data st4 = (Inl e, attempts, st5) \<longrightarrow>
                process_request E questions data_files data_url st =
                  (if is_Exception e then Inr (error_envelope e) else Inl e, st5)) \<and>
             (\<forall>execution_result attempts st5.
                execute_with_correction E generated_code raw_data st4 =
                  (Inr execution_result, attempts, st5) \<longrightarrow>
                (\<forall>e. format_final_output E execution_result questions = Inl e \<longrightarrow>
                   process_request E questions data_files data_url st =
                     (if is_Exception e then Inr (error_envelope e) else Inl e, st5)) \<and>
                (\<forall>final_output.
                   format_final_output E execution_result questions = Inr final_output \<longrightarrow>
                   process_request E questions data_files data_url st =
                     (Inr final_output, st5)))))))"
    by (simp add: process_request_def pipeline_def Let_def split del: if_split)
qed

text \<open>
  Without a credential the first model call raises, and the request is answered with the
  error envelope. With an executor that prints arrays nested a hundred thousand deep the
  last stage raises \<open>RecursionError\<close>, and the request is answered with the error
  envelope. With the sample collaborators no stage raises, and the request is answered
  with the formatted output of the run.
\<close>

theorem process_request_envelope_witness:
  "get_task_breakdown no_key_env ''What is 2+2?'' start =
     (Inl (PyExc ''ValueError'' ''Gemini API key not configured''), start) \<and>
   process_request no_key_env ''What is 2+2?'' [] [] start =
     (Inr (PDict [(''status'', PStr ''error''),
                  (''message'', PStr ''Processing failed: Gemini API key not configured''),
                  (''results'', PList [])]), start) \<and>
   process_request nested_output_env ''What is 2+2?'' [] [] start =
     (Inr (PDict [(''status'', PStr ''error''),
                  (''message'', PStr (''Processing failed: maximum recursion depth exceeded ''
                     @ ''while decoding a JSON array from a unicode string'')),
                  (''results'', PList [])]),
      \<lparr>world = 6,
       trace = [ExecuteCode, PrepareCode, ModelCall ''prompt'' None, ModelCall ''prompt'' None]\<rparr>) \<and>
   process_request sample_env ''What is 2+2?'' [] [] start =
     (Inr (PDict [(''status'', PStr ''success''),
                  (''questions'', PStr ''What is 2+2?''),
                  (''results'', PList [PInt 4]),
                  (''metadata'', PDict [(''execution_success'', PBool True),
                                        (''processing_pipeline'', PStr ''completed'')])]),
      \<lparr>world = 6,
       trace = [ExecuteCode, PrepareCode, ModelCall ''prompt'' None, ModelCall ''prompt'' None]\<rparr>)"
proof -
  let ?q = "''What is 2+2?''"
  let ?plan = "PDict [(''plan'', PStr ''print([4])''), (''steps'', PList [])]"
  let ?raw = "PDict [(''type'', PStr ''text''), (''content'', PStr [])]"
  let ?meta = "PDict [(''source_type'', PStr ''text_only'')]"
  let ?st1 = "\<lparr>world = 1, trace = [ModelCall ''prompt'' None]\<rparr> :: nat state"
  let ?st3 = "\<lparr>world = 2, trace = [ModelCall ''prompt'' None]\<rparr> :: nat state"
  let ?st4 = "\<lparr>world = 3, trace = [ModelCall ''prompt'' None, ModelCall ''prompt'' None]\<rparr> :: nat state"
  let ?st5 = "\<lparr>world = 6, trace = [ExecuteCode, PrepareCode, ModelCall ''prompt'' None,
                                  ModelCall ''prompt'' None]\<rparr> :: nat state"
  let ?deep = "PyExc ''RecursionError''
      ''maximum recursion depth exceeded while decoding a JSON array from a unicode string''"
  have caught: "is_Exception (PyExc ''ValueError'' ''Gemini API key not configured'')"
    "is_Exception ?deep"
    by (simp_all add: is_Exception_def outside_Exception_def)
  have raised: "get_task_breakdown no_key_env ?q start =
     (Inl (PyExc ''ValueError'' ''Gemini API key not configured''), start)"
    by (simp add: get_task_breakdown_def gateway_eval sample_envs)
  from process_request_envelope
    [OF refl refl, where E = no_key_env and questions = ?q and st = start
       and data_files = "[]" and data_url = "[]"] raised
  have "process_request no_key_env ?q [] [] start =
      (if is_Exception (PyExc ''ValueError'' ''Gemini API key not configured'')
       then Inr (error_envelope (PyExc ''ValueError'' ''Gemini API key not configured''))
       else Inl (PyExc ''ValueError'' ''Gemini API key not configured''), start)"
    by blast
  with caught(1) have refused: "process_request no_key_env ?q [] [] start =
      (Inr (error_envelope (PyExc ''ValueError'' ''Gemini API key not configured'')), start)"
    by (simp only: if_True)
  have kind: "analyze_data_source ?q [] [] = ''text_only''"
    by (simp add: analyze_data_source_def text_eval)
  have stage2: "get_task_breakdown sample_env ?q start = (Inr ?plan, ?st1)"
    "get_task_breakdown nested_output_env ?q start = (Inr ?plan, ?st1)"
    by (simp_all add: get_task_breakdown_def gateway_eval sample_envs)
  have stage3: "source_data sample_env ''text_only'' [] [] ?plan ?st1 = (Inr ?raw, ?st1)"
    "source_data nested_output_env ''text_only'' [] [] ?plan ?st1 = (Inr ?raw, ?st1)"
    by (simp_all add: source_data_def)
  have stage4: "extract_metadata sample_env ?raw ''text_only'' ?st1 = (Inr ?meta, ?st3)"
    "extract_metadata nested_output_env ?raw ''text_only'' ?st1 = (Inr ?meta, ?st3)"
    by (simp_all add: extract_metadata_def execute_tool_def available_tools_def
        execute_data_inspector_def get_param_def run_def sample_envs)
  have stage5: "generate_code sample_env ?q ?meta ?st3 = (Inr ''print([4])'', ?st4)"
    "generate_code nested_output_env ?q ?meta ?st3 = (Inr ''print([4])'', ?st4)"
    by (simp_all add: generate_code_def gateway_eval sample_envs)
  have stage6: "execute_with_correction sample_env ''print([4])'' ?raw ?st4 =
      (Inr \<lparr>success = True, output_text = ''[4]'', error = None\<rparr>, 0, ?st5)"
    "execute_with_correction nested_output_env ''print([4])'' ?raw ?st4 =
      (Inr \<lparr>success = True, output_text = deeply_nested, error = None\<rparr>, 0, ?st5)"
    by (simp_all add: loop_eval sample_envs)
  have stage7: "format_final_output sample_env
        \<lparr>success = True, output_text = ''[4]'', error = None\<rparr> ?q =
      Inr (PDict [(''status'', PStr ''success''),
                  (''questions'', PStr ''What is 2+2?''),
                  (''results'', PList [PInt 4]),
                  (''metadata'', PDict [(''execution_success'', PBool True),
                                        (''processing_pipeline'', PStr ''completed'')])])"
    by (simp add: format_final_output_def format_results_def search_array_literal_def
        text_eval sample_envs)
  have stage7_deep: "format_final_output nested_output_env
        \<lparr>success = True, output_text = deeply_nested, error = None\<rparr> ?q = Inl ?deep"
    by (simp add: format_final_output_def format_results_def search_array_literal_deeply_nested
        sample_envs)
  note chain = process_request_envelope
    [where data_source_type = "''text_only''" and questions = ?q and data_files = "[]"
       and data_url = "[]" and url = "[]" and st = start and E = sample_env, THEN conjunct2]
  note chain_deep = process_request_envelope
    [where data_source_type = "''text_only''" and questions = ?q and data_files = "[]"
       and data_url = "[]" and url = "[]" and st = start and E = nested_output_env,
     THEN conjunct2]
  from chain kind stage2(1) stage3(1) stage4(1) stage5(1) stage6(1) stage7
  have answered: "process_request sample_env ?q [] [] start =
     (Inr (PDict [(''status'', PStr ''success''),
                  (''questions'', PStr ''What is 2+2?''),
                  (''results'', PList [PInt 4]),
                  (''metadata'', PDict [(''execution_success'', PBool True),
                                        (''processing_pipeline'', PStr ''completed'')])]), ?st5)"
    by (simp split del: if_split)
  from chain_deep kind stage2(2) stage3(2) stage4(2) stage5(2) stage6(2)
    stage7_deep
  have "process_request nested_output_env ?q [] [] start =
      (if is_Exception ?deep then Inr (error_envelope ?deep) else Inl ?deep, ?st5)"
    by (simp split del: if_split)
  with caught(2) have too_deep: "process_request nested_output_env ?q [] [] start =
      (Inr (error_envelope ?deep), ?st5)"
    by (simp only: if_True)
  from raised refused too_deep answered show ?thesis
    by (simp add: error_envelope_def)
qed

text \<open>
  C4 as stated fails for an exception outside \<open>Exception\<close>. When the first model call
  is interrupted from the keyboard, the gateway does not retry, the breakdown stage
  raises \<open>KeyboardInterrupt\<close>, the handler of \<open>process_request\<close> does not catch it, and
  the call raises it: there is no envelope.
\<close>

theorem process_request_raises:
  "process_request interrupted_env ''What is 2+2?'' [] [] start =
     (Inl (PyExc ''KeyboardInterrupt'' []),
      \<lparr>world = 1, trace = [ModelCall ''prompt'' (Some (PyExc ''KeyboardInterrupt'' []))]\<rparr>)"
  by (simp add: pipeline_eval gateway_eval text_eval sample_envs)

lemma match_url_Some: "match_url s = Some u \<Longrightarrow> prefix ''https://'' s \<or> prefix ''http://'' s"
  by (simp add: match_url_def split: if_splits)

lemma find_url_None:
  "\<not> sublist ''http://'' s \<Longrightarrow> \<not> sublist ''https://'' s \<Longrightarrow> find_url s = None"
proof (induction s)
  case Nil
  then show ?case by simp
next
  case (Cons c cs)
  from Cons.prems have here: "match_url (c # cs) = None"
    by (cases "match_url (c # cs)") (auto dest!: match_url_Some dest: prefix_imp_sublist)
  from Cons.prems have "\<not> sublist ''http://'' cs" "\<not> sublist ''https://'' cs"
    by (auto dest: sublist_Cons_right [THEN iffD2, OF disjI2])
  with Cons.IH here show ?case
    by simp
qed

lemma extract_url_without_scheme:
  "\<not> sublist ''http://'' s \<Longrightarrow> \<not> sublist ''https://'' s \<Longrightarrow> extract_url s = []"
  by (simp add: extract_url_def find_url_None)

text \<open>
  C9 (amended). Let a request have an empty \<open>data_url\<close>, no file, and a question that
  contains \<open>www.\<close> (up to letter case) but neither \<open>http://\<close> nor \<open>https://\<close>; let the
  breakdown stage return a plan dict whose \<open>plan\<close> is missing or is a text with neither
  of them. Then the request is classified \<open>url_in_text\<close>, no URL is extracted from the
  question or from the plan, \<open>web_scraper\<close> is dispatched with the empty \<open>url\<close>, the
  dispatcher raises \<open>ValueError\<close> before the scraper runs, and the request is answered
  with the error envelope of the top level.
\<close>

theorem url_in_text_without_url:
  assumes "sublist ''www.'' (lower questions)"
    and "\<not> sublist ''http://'' questions \<and> \<not> sublist ''https://'' questions"
    and "get_task_breakdown E questions st = (Inr (PDict task_plan), st1)"
    and "map_of task_plan ''plan'' = None \<or>
         (\<exists>plan. map_of task_plan ''plan'' = Some (PStr plan) \<and>
                 \<not> sublist ''http://'' plan \<and> \<not> sublist ''https://'' plan)"
  shows
    "analyze_data_source questions [] [] = ''url_in_text'' \<and>
     extract_url questions = [] \<and>
     (case dict_get (PDict task_plan) ''plan'' (PStr []) of
        Inl e \<Rightarrow> False
      | Inr plan \<Rightarrow> extract_url_from_text plan = Inr []) \<and>
     source_data E ''url_in_text'' [] [] (PDict task_plan) st1 =
       execute_tool E ''web_scraper'' [''url'' \<mapsto> PStr []] st1 \<and>
     execute_tool E ''web_scraper'' [''url'' \<mapsto> PStr []] st1 =
       (Inl (PyExc ''ValueError'' ''URL parameter is required for web scraper''), st1) \<and>
     process_request E questions [] [] st =
       (Inr (PDict [(''status'', PStr ''error''),
                    (''message'', PStr ''Processing failed: URL parameter is required for web scraper''),
                    (''results'', PList [])]), st1)"
proof -
  from assms(1) have kind: "analyze_data_source questions [] [] = ''url_in_text''"
    by (simp add: analyze_data_source_def)
  from assms(2) have none_q: "extract_url questions = []"
    by (simp add: extract_url_without_scheme)
  from assms(4) have none_p:
    "(case dict_get (PDict task_plan) ''plan'' (PStr []) of
        Inl e \<Rightarrow> False
      | Inr plan \<Rightarrow> extract_url_from_text plan = Inr [])"
    by (auto simp: dict_get_def extract_url_from_text_def extract_url_without_scheme
        extract_url_def find_url_None)
  then have src: "source_data E ''url_in_text'' [] [] (PDict task_plan) st1 =
       execute_tool E ''web_scraper'' [''url'' \<mapsto> PStr []] st1"
    by (auto simp: source_data_def split: sum.splits)
  have refused: "execute_tool E ''web_scraper'' [''url'' \<mapsto> PStr []] st1 =
       (Inl (PyExc ''ValueError'' ''URL parameter is required for web scraper''), st1)"
    by (simp add: execute_tool_def available_tools_def execute_web_scraper_def get_param_def)
  from kind none_q assms(3) src refused
  have "process_request E questions [] [] st =
       (Inr (error_envelope (PyExc ''ValueError'' ''URL parameter is required for web scraper'')), st1)"
    by (simp add: process_request_def pipeline_def is_Exception_def outside_Exception_def)
  with kind none_q none_p src refused show ?thesis
    by (simp add: error_envelope_def)
qed


text \<open>A question that names a site without a scheme, and a plan in prose.\<close>

theorem url_in_text_without_url_witness:
  "sublist ''www.'' (lower ''see www.example.com'') \<and>
   \<not> sublist ''http://'' ''see www.example.com'' \<and>
   \<not> sublist ''https://'' ''see www.example.com'' \<and>
   get_task_breakdown prose_reply_env ''see www.example.com'' start =
     (Inr (PDict [(''plan'', PStr ''read the page and count''), (''steps'', PList [])]),
      \<lparr>world = 1, trace = [ModelCall ''prompt'' None]\<rparr>) \<and>
   process_request prose_reply_env ''see www.example.com'' [] [] start =
     (Inr (PDict [(''status'', PStr ''error''),
                  (''message'', PStr ''Processing failed: URL parameter is required for web scraper''),
                  (''results'', PList [])]),
      \<lparr>world = 1, trace = [ModelCall ''prompt'' None]\<rparr>)"
proof -
  have www: "sublist ''www.'' (lower ''see www.example.com'')"
    by (simp add: text_eval)
  have no_scheme: "\<not> sublist ''http://'' ''see www.example.com'' \<and>
      \<not> sublist ''https://'' ''see www.example.com''"
    by (simp add: sublist_code)
  have plan: "get_task_breakdown prose_reply_env ''see www.example.com'' start =
     (Inr (PDict [(''plan'', PStr ''read the page and count''), (''steps'', PList [])]),
      \<lparr>world = 1, trace = [ModelCall ''prompt'' None]\<rparr>)"
    by (simp add: get_task_breakdown_def gateway_eval sample_envs)
  have plan_text: "map_of [(''plan'', PStr ''read the page and count''), (''steps'', PList [])] ''plan'' = None \<or>
      (\<exists>plan. map_of [(''plan'', PStr ''read the page and count''), (''steps'', PList [])] ''plan'' =
                Some (PStr plan) \<and>
              \<not> sublist ''http://'' plan \<and> \<not> sublist ''https://'' plan)"
    by (simp add: sublist_code)
  from url_in_text_without_url [OF www no_scheme plan plan_text] www no_scheme plan
  show ?thesis
    by simp
qed

text \<open>
  C9 as stated covers every request that is classified \<open>url_in_text\<close> and has no URL in
  its question or plan. A \<open>data_url\<close> of one space is such a request (the classifier
  strips it, so the request is \<open>url_in_text\<close>), but \<open>_source_data\<close> tests \<open>not data_url\<close>
  without stripping: the plan is not searched, \<open>web_scraper\<close> is dispatched with the
  \<open>url\<close> \<open>" "\<close>, which is not empty, the dispatcher does not raise, and the scraper
  runs. With the sample collaborators the request then goes through all stages.
\<close>

theorem url_in_text_blank_url:
  "analyze_data_source ''see www.example.com'' [] '' '' = ''url_in_text'' \<and>
   extract_url ''see www.example.com'' = [] \<and>
   source_data prose_reply_env ''url_in_text'' [] '' ''
       (PDict [(''plan'', PStr ''read the page and count''), (''steps'', PList [])])
       \<lparr>world = 1, trace = [ModelCall ''prompt'' None]\<rparr> =
     (Inr (PDict [(''success'', PBool False), (''error'', PStr ''Invalid URL format''),
                  (''url'', PStr '' '')]),
      \<lparr>world = 2, trace = [ModelCall ''prompt'' None]\<rparr>) \<and>
   fst (process_request prose_reply_env ''see www.example.com'' [] '' '' start) =
     Inr (PDict [(''status'', PStr ''success''),
                 (''questions'', PStr ''see www.example.com''),
                 (''results'', PList [PInt 4]),
                 (''metadata'', PDict [(''execution_success'', PBool True),
                                       (''processing_pipeline'', PStr ''completed'')])])"
  by (simp add: pipeline_eval gateway_eval loop_eval text_eval sample_envs)

end
